theory Spec2Isabelle
  imports Complex_Main "HOL-Library.Sublist"
begin

section \<open>Python values\<close>

text \<open>
  The script \<^verbatim>\<open>scripts/update_models.py\<close> works on the values that \<^verbatim>\<open>json\<close> and
  \<^verbatim>\<open>yaml.safe_load\<close> return: \<^verbatim>\<open>None\<close>, booleans, integers, floats, strings, lists and
  dictionaries. Dictionary keys are hashable, hence scalars; a dictionary is kept as an
  association list in insertion order, which is the order Python iterates and prints.
  Floats are real numbers here: the script only tests them for zero and for equality.
  Documents are trees: a configuration whose YAML text shares one mapping between two
  places through an anchor and an alias is outside this model.

  Lines 34 and 123 of the script each hold two statements with the line break between
  them missing, \<^verbatim>\<open>return [...]\<close> before \<^verbatim>\<open>except Exception as e:\<close> and the warning's
  \<^verbatim>\<open>print(...)\<close> before \<^verbatim>\<open>sys.exit(0)\<close>. They are read as the two statements they spell,
  each on a line of its own.
\<close>

datatype scalar = SNone | SBool bool | SInt int | SFloat real | SStr string

datatype pyval = PS scalar | PList "pyval list" | PDict "(scalar \<times> pyval) list"

datatype py_error =
  AttributeError | KeyError | TypeError | OSError | JSONDecodeError | YAMLError
  | RequestException

text \<open>
  Python compares and hashes \<^verbatim>\<open>True\<close>, \<^verbatim>\<open>1\<close> and \<^verbatim>\<open>1.0\<close> as one key; a string only
  equals a string, \<^verbatim>\<open>None\<close> only \<^verbatim>\<open>None\<close>.
\<close>

fun hkey :: "scalar \<Rightarrow> scalar" where
  "hkey (SBool b) = SFloat (if b then 1 else 0)"
| "hkey (SInt i) = SFloat (of_int i)"
| "hkey k = k"

definition py_eq :: "scalar \<Rightarrow> scalar \<Rightarrow> bool" where
  "py_eq a b = (hkey a = hkey b)"

text \<open>\<^verbatim>\<open>d.get(k)\<close> as an option, and \<^verbatim>\<open>d[k] = v\<close>: an existing key keeps its place.\<close>

fun dict_get :: "(scalar \<times> 'v) list \<Rightarrow> scalar \<Rightarrow> 'v option" where
  "dict_get [] k = None"
| "dict_get ((k', v) # d) k = (if py_eq k' k then Some v else dict_get d k)"

fun dict_set :: "(scalar \<times> 'v) list \<Rightarrow> scalar \<Rightarrow> 'v \<Rightarrow> (scalar \<times> 'v) list" where
  "dict_set [] k v = [(k, v)]"
| "dict_set ((k', v') # d) k v =
     (if py_eq k' k then (k', v) # d else (k', v') # dict_set d k v)"

text \<open>Truth value testing, as \<^verbatim>\<open>if m\<close> and \<^verbatim>\<open>a or b\<close> use it.\<close>

fun truthy :: "pyval \<Rightarrow> bool" where
  "truthy (PS SNone) = False"
| "truthy (PS (SBool b)) = b"
| "truthy (PS (SInt i)) = (i \<noteq> 0)"
| "truthy (PS (SFloat r)) = (r \<noteq> 0)"
| "truthy (PS (SStr s)) = (s \<noteq> [])"
| "truthy (PList xs) = (xs \<noteq> [])"
| "truthy (PDict d) = (d \<noteq> [])"

text \<open>
  The four operations the script applies with a string key. On a value of the wrong
  type Python raises, and so does the model:
  \<^verbatim>\<open>x.get(k, default)\<close> exists on dictionaries only;
  \<^verbatim>\<open>x[k]\<close> raises \<^verbatim>\<open>KeyError\<close> on a dictionary without the key and \<^verbatim>\<open>TypeError\<close> on
  a list, a string or another scalar; \<^verbatim>\<open>x[k] = v\<close> likewise;
  \<^verbatim>\<open>k in x\<close> is a key test on a dictionary, a membership test on a list, a substring
  test on a string, and raises \<^verbatim>\<open>TypeError\<close> on the other scalars.
\<close>

fun py_get :: "pyval \<Rightarrow> string \<Rightarrow> pyval \<Rightarrow> py_error + pyval" where
  "py_get (PDict d) k dflt = Inr (case dict_get d (SStr k) of Some v \<Rightarrow> v | None \<Rightarrow> dflt)"
| "py_get x k dflt = Inl AttributeError"

fun py_getitem :: "pyval \<Rightarrow> string \<Rightarrow> py_error + pyval" where
  "py_getitem (PDict d) k = (case dict_get d (SStr k) of Some v \<Rightarrow> Inr v | None \<Rightarrow> Inl KeyError)"
| "py_getitem x k = Inl TypeError"

fun py_setitem :: "pyval \<Rightarrow> string \<Rightarrow> pyval \<Rightarrow> py_error + pyval" where
  "py_setitem (PDict d) k v = Inr (PDict (dict_set d (SStr k) v))"
| "py_setitem x k v = Inl TypeError"

fun py_contains :: "string \<Rightarrow> pyval \<Rightarrow> py_error + bool" where
  "py_contains k (PDict d) = Inr (dict_get d (SStr k) \<noteq> None)"
| "py_contains k (PList xs) = Inr (PS (SStr k) \<in> set xs)"
| "py_contains k (PS (SStr s)) = Inr (sublist k s)"
| "py_contains k (PS x) = Inl TypeError"

text \<open>Sequencing of steps that may raise: the first exception ends the computation.\<close>

fun bind :: "py_error + 'a \<Rightarrow> ('a \<Rightarrow> py_error + 'b) \<Rightarrow> py_error + 'b" where
  "bind (Inl e) f = Inl e"
| "bind (Inr x) f = f x"

fun map_raise :: "('a \<Rightarrow> py_error + 'b) \<Rightarrow> 'a list \<Rightarrow> py_error + 'b list" where
  "map_raise f [] = Inr []"
| "map_raise f (x # xs) = bind (f x) (\<lambda>y. bind (map_raise f xs) (\<lambda>ys. Inr (y # ys)))"

section \<open>The world of one run\<close>

text \<open>
  What the run reads from outside is data of the model. A request to the API either
  raises (\<^verbatim>\<open>requests.get\<close>, \<^verbatim>\<open>raise_for_status\<close> or \<^verbatim>\<open>resp.json()\<close>) or yields the
  decoded body. The leaderboard page either raises or yields its text, of which the
  script looks at two things: what \<^verbatim>\<open>re.search\<close> finds for the \<^verbatim>\<open>__NEXT_DATA__\<close>
  pattern (nothing, a group that \<^verbatim>\<open>json.loads\<close> decodes, or a group on which it
  raises), and the list \<^verbatim>\<open>re.findall\<close> returns for the \<^verbatim>\<open>"model_name"\<close> pattern, in
  document order.
\<close>

datatype api_response = ApiRaises py_error | ApiJson pyval

datatype blob = NoBlob | BlobJson pyval | BlobInvalid

record page =
  next_data :: blob
  model_names :: "string list"

datatype page_response = PageRaises py_error | PageText page

datatype json_file = FileMissing | FileInvalid | FileJson pyval

datatype url = ARENA_API_URL | LEADERBOARD_PAGE_URL

datatype message =
  MsgFetching | WarnApiFailed py_error | WarnPageStructure | ErrFallbackFailed py_error
  | ErrNoLeaderboard | MsgFetched nat | MsgRank nat pyval | MsgMatched nat
  | MsgProvider scalar "pyval list" | WarnNoMatch | MsgNoChange | MsgUpdated

datatype event = HttpGet url | Print message

text \<open>
  The YAML library is not part of the repository. Its two entry points are parameters,
  and so is the type \<open>'t\<close> of what a file holds.
\<close>

record 't yaml =
  safe_load :: "'t \<Rightarrow> pyval option"
  dump :: "pyval \<Rightarrow> 't"

record 't env =
  arena_api :: api_response
  leaderboard_page :: page_response
  mapping_file :: json_file
  yaml_file :: "'t option"

section \<open>fetch_leaderboard\<close>

definition TOP_N :: nat where
  "TOP_N = 30"

text \<open>\<^verbatim>\<open>item.get("model") or item.get("name", "")\<close>\<close>

definition item_name :: "pyval \<Rightarrow> py_error + pyval" where
  "item_name item =
     bind (py_get item ''model'' (PS SNone)) (\<lambda>m.
       if truthy m then Inr m else py_get item ''name'' (PS (SStr '''')))"

text \<open>
  The body of the first \<^verbatim>\<open>try\<close>, after the request: \<open>Inl\<close> is an exception,
  \<open>Inr (Some names)\<close> the \<^verbatim>\<open>return\<close>, \<open>Inr None\<close> falling out of the block because the
  body is not a list.
\<close>

fun api_names :: "pyval \<Rightarrow> py_error + pyval list option" where
  "api_names (PList data) =
     bind (map_raise item_name (take TOP_N data)) (\<lambda>models.
       Inr (Some (filter truthy models)))"
| "api_names data = Inr None"

fun primary_try :: "api_response \<Rightarrow> py_error + pyval list option" where
  "primary_try (ApiRaises e) = Inl e"
| "primary_try (ApiJson data) = api_names data"

text \<open>
  The body of the second \<^verbatim>\<open>try\<close>, with what it prints. \<^verbatim>\<open>json.loads\<close> stands before
  the \<^verbatim>\<open>re.findall\<close>, inside the same block.
\<close>

fun page_names :: "page \<Rightarrow> (py_error + pyval list option) \<times> event list" where
  "page_names p =
     (case next_data p of
        BlobInvalid \<Rightarrow> (Inl JSONDecodeError, [])
      | b \<Rightarrow>
          (if model_names p \<noteq> [] then Inr (Some (map (\<lambda>s. PS (SStr s)) (take TOP_N (model_names p))))
           else Inr None,
           case b of BlobJson page_data \<Rightarrow> [Print WarnPageStructure] | _ \<Rightarrow> []))"

fun fallback_try :: "page_response \<Rightarrow> (py_error + pyval list option) \<times> event list" where
  "fallback_try (PageRaises e) = (Inl e, [])"
| "fallback_try (PageText p) = page_names p"

text \<open>
  The function itself. Its value is in \<open>py_error + pyval list\<close>, so that an exception
  leaving it would be the value \<open>Inl\<close>.
\<close>

definition fetch_leaderboard :: "'t env \<Rightarrow> (py_error + pyval list) \<times> event list" where
  "fetch_leaderboard w =
     (case primary_try (arena_api w) of
        Inr (Some names) \<Rightarrow> (Inr names, [HttpGet ARENA_API_URL])
      | r \<Rightarrow>
          (let warned = (case r of Inl e \<Rightarrow> [Print (WarnApiFailed e)] | Inr _ \<Rightarrow> [])
           in case fallback_try (leaderboard_page w) of
                (Inr (Some names), printed) \<Rightarrow>
                  (Inr names, HttpGet ARENA_API_URL # warned @ HttpGet LEADERBOARD_PAGE_URL # printed)
              | (Inr None, printed) \<Rightarrow>
                  (Inr [], HttpGet ARENA_API_URL # warned @ HttpGet LEADERBOARD_PAGE_URL # printed)
              | (Inl e, printed) \<Rightarrow>
                  (Inr [], HttpGet ARENA_API_URL # warned @ HttpGet LEADERBOARD_PAGE_URL # printed
                            @ [Print (ErrFallbackFailed e)])))"

section \<open>load_mapping\<close>

text \<open>
  \<^verbatim>\<open>json.load\<close> yields string keys only; on another key \<^verbatim>\<open>k.startswith\<close> would raise.
  A top-level value that is not an object has no \<^verbatim>\<open>items\<close>.
\<close>

fun startswith_underscore :: "scalar \<Rightarrow> py_error + bool" where
  "startswith_underscore (SStr s) = Inr (prefix ''_'' s)"
| "startswith_underscore k = Inl AttributeError"

fun keep_items :: "(scalar \<times> pyval) list \<Rightarrow> py_error + (scalar \<times> pyval) list" where
  "keep_items [] = Inr []"
| "keep_items ((k, v) # d) =
     bind (startswith_underscore k) (\<lambda>comment.
       bind (keep_items d) (\<lambda>kept. Inr (if comment then kept else (k, v) # kept)))"

fun load_mapping :: "json_file \<Rightarrow> py_error + (scalar \<times> pyval) list" where
  "load_mapping FileMissing = Inl OSError"
| "load_mapping FileInvalid = Inl JSONDecodeError"
| "load_mapping (FileJson (PDict d)) = keep_items d"
| "load_mapping (FileJson data) = Inl AttributeError"

section \<open>Grouping by provider\<close>

text \<open>
  The loop of \<^verbatim>\<open>main\<close> over \<^verbatim>\<open>arena_models\<close>. \<^verbatim>\<open>arena_name in mapping\<close> hashes the name;
  \<^verbatim>\<open>provider_models.setdefault(provider, [])\<close> hashes the provider.
\<close>

definition setdefault_append ::
  "(scalar \<times> pyval list) list \<Rightarrow> scalar \<Rightarrow> pyval \<Rightarrow> (scalar \<times> pyval list) list" where
  "setdefault_append provider_models provider model_id =
     (case dict_get provider_models provider of
        Some ids \<Rightarrow> dict_set provider_models provider (ids @ [model_id])
      | None \<Rightarrow> provider_models @ [(provider, [model_id])])"

fun group_step ::
  "(scalar \<times> pyval) list \<Rightarrow> (scalar \<times> pyval list) list \<times> nat \<Rightarrow> pyval
   \<Rightarrow> py_error + (scalar \<times> pyval list) list \<times> nat" where
  "group_step mapping (provider_models, matched) (PS arena_name) =
     (case dict_get mapping arena_name of
        None \<Rightarrow> Inr (provider_models, matched)
      | Some info \<Rightarrow>
          bind (py_getitem info ''provider'') (\<lambda>provider.
          bind (py_getitem info ''model_id'') (\<lambda>model_id.
            case provider of
              PS p \<Rightarrow> Inr (setdefault_append provider_models p model_id, matched + 1)
            | _ \<Rightarrow> Inl TypeError)))"
| "group_step mapping (provider_models, matched) arena_name = Inl TypeError"

fun fold_raise :: "('s \<Rightarrow> 'a \<Rightarrow> py_error + 's) \<Rightarrow> 'a list \<Rightarrow> 's \<Rightarrow> py_error + 's" where
  "fold_raise f [] s = Inr s"
| "fold_raise f (x # xs) s = bind (f s x) (fold_raise f xs)"

definition group_models ::
  "(scalar \<times> pyval) list \<Rightarrow> pyval list \<Rightarrow> py_error + (scalar \<times> pyval list) list \<times> nat" where
  "group_models mapping arena_models = fold_raise (group_step mapping) arena_models ([], 0)"

section \<open>update_yaml\<close>

text \<open>
  Both loops end in the same two assignments, on \<^verbatim>\<open>endpoints[builtin]\<close> and on
  \<^verbatim>\<open>endpoint\<close>: \<^verbatim>\<open>e["models"]["default"] = models\<close>, then
  \<^verbatim>\<open>e["titleModel"] = models[-1]\<close> when \<^verbatim>\<open>len(models) > 1\<close>. The assignments change the
  objects in place; on the tree each changed value is put back where it was read.
\<close>

definition set_models :: "pyval \<Rightarrow> pyval list \<Rightarrow> py_error + pyval" where
  "set_models e models =
     bind (py_getitem e ''models'') (\<lambda>m.
     bind (py_setitem m ''default'' (PList models)) (\<lambda>m'.
     bind (py_setitem e ''models'' m') (\<lambda>e'.
       if length models > 1 then py_setitem e' ''titleModel'' (last models) else Inr e')))"

definition update_builtin ::
  "(scalar \<times> pyval list) list \<Rightarrow> pyval \<Rightarrow> string \<Rightarrow> py_error + pyval" where
  "update_builtin provider_models endpoints builtin =
     bind (py_contains builtin endpoints) (\<lambda>present.
       if present then
         (case dict_get provider_models (SStr builtin) of
            None \<Rightarrow> Inr endpoints
          | Some models \<Rightarrow>
              if models \<noteq> [] then
                bind (py_getitem endpoints builtin) (\<lambda>e.
                bind (set_models e models) (\<lambda>e'.
                  py_setitem endpoints builtin e'))
              else Inr endpoints)
       else Inr endpoints)"

text \<open>
  \<^verbatim>\<open>name in provider_models\<close> hashes the name, so a list or a dictionary raises.
\<close>

definition update_custom :: "(scalar \<times> pyval list) list \<Rightarrow> pyval \<Rightarrow> py_error + pyval" where
  "update_custom provider_models endpoint =
     bind (py_get endpoint ''name'' (PS (SStr ''''))) (\<lambda>name.
       case name of
         PS k \<Rightarrow>
           (case dict_get provider_models k of
              None \<Rightarrow> Inr endpoint
            | Some models \<Rightarrow> if models \<noteq> [] then set_models endpoint models else Inr endpoint)
       | _ \<Rightarrow> Inl TypeError)"

text \<open>
  \<^verbatim>\<open>for endpoint in endpoints["custom"]\<close>: a list gives its elements. A dictionary gives
  its keys and a string its characters, on which \<^verbatim>\<open>get\<close> does not exist; any other
  scalar cannot be iterated.
\<close>

definition update_customs :: "(scalar \<times> pyval list) list \<Rightarrow> pyval \<Rightarrow> py_error + pyval" where
  "update_customs provider_models endpoints =
     bind (py_contains ''custom'' endpoints) (\<lambda>present.
       if present then
         bind (py_getitem endpoints ''custom'') (\<lambda>custom.
           case custom of
             PList es \<Rightarrow>
               bind (map_raise (update_custom provider_models) es) (\<lambda>es'.
                 py_setitem endpoints ''custom'' (PList es'))
           | PDict d \<Rightarrow> if d = [] then Inr endpoints else Inl AttributeError
           | PS (SStr s) \<Rightarrow> if s = [] then Inr endpoints else Inl AttributeError
           | PS _ \<Rightarrow> Inl TypeError)
       else Inr endpoints)"

text \<open>From \<^verbatim>\<open>config.get("endpoints", {})\<close> to \<^verbatim>\<open>config["endpoints"] = endpoints\<close>.\<close>

definition update_config :: "(scalar \<times> pyval list) list \<Rightarrow> pyval \<Rightarrow> py_error + pyval" where
  "update_config provider_models config =
     bind (py_get config ''endpoints'' (PDict [])) (\<lambda>endpoints.
     bind (fold_raise (update_builtin provider_models) [''openAI'', ''anthropic''] endpoints)
       (\<lambda>endpoints.
     bind (update_customs provider_models endpoints) (\<lambda>endpoints.
       py_setitem config ''endpoints'' endpoints)))"

text \<open>
  The whole function, from the file's content to its new content. An exception leaves
  the file as it was: the file is opened for writing after the last assignment.
\<close>

definition update_yaml ::
  "'t yaml \<Rightarrow> (scalar \<times> pyval list) list \<Rightarrow> 't option \<Rightarrow> py_error + 't" where
  "update_yaml lib provider_models file =
     (case file of
        None \<Rightarrow> Inl OSError
      | Some content \<Rightarrow>
          (case safe_load lib content of
             None \<Rightarrow> Inl YAMLError
           | Some config \<Rightarrow>
               bind (update_config provider_models config) (\<lambda>config'. Inr (dump lib config'))))"

section \<open>main\<close>

text \<open>
  A run ends by returning from \<^verbatim>\<open>main\<close>, in \<^verbatim>\<open>sys.exit\<close>, or in an exception nobody
  catches, on which the interpreter ends the process with status 1.
\<close>

datatype outcome = Returned | SysExit nat | Uncaught py_error

fun exit_status :: "outcome \<Rightarrow> nat" where
  "exit_status Returned = 0"
| "exit_status (SysExit n) = n"
| "exit_status (Uncaught e) = 1"

record 't run =
  outcome :: outcome
  yaml_after :: "'t option"
  printed :: "event list"

text \<open>
  Lines 126 to 137: the content is read, \<^verbatim>\<open>update_yaml\<close> runs, the content is read
  again and compared.
\<close>

definition update_and_report ::
  "'t yaml \<Rightarrow> (scalar \<times> pyval list) list \<Rightarrow> 't option \<Rightarrow> event list \<Rightarrow> 't run" where
  "update_and_report lib provider_models file so_far =
     (case file of
        None \<Rightarrow> \<lparr>outcome = Uncaught OSError, yaml_after = file, printed = so_far\<rparr>
      | Some old_content \<Rightarrow>
          (case update_yaml lib provider_models file of
             Inl e \<Rightarrow> \<lparr>outcome = Uncaught e, yaml_after = file, printed = so_far\<rparr>
           | Inr new_content \<Rightarrow>
               \<lparr>outcome = Returned, yaml_after = Some new_content,
                printed = so_far @
                  [Print (if old_content = new_content then MsgNoChange else MsgUpdated)]\<rparr>))"

definition rank_lines :: "pyval list \<Rightarrow> event list" where
  "rank_lines arena_models =
     map (\<lambda>(i, m). Print (MsgRank i m)) (zip [1 ..< Suc (length arena_models)] arena_models)"

definition main :: "'t yaml \<Rightarrow> 't env \<Rightarrow> 't run" where
  "main lib w =
     (case fetch_leaderboard w of
        (Inl e, evs) \<Rightarrow>
          \<lparr>outcome = Uncaught e, yaml_after = yaml_file w, printed = Print MsgFetching # evs\<rparr>
      | (Inr arena_models, evs) \<Rightarrow>
          if arena_models = [] then
            \<lparr>outcome = SysExit 1, yaml_after = yaml_file w,
             printed = Print MsgFetching # evs @ [Print ErrNoLeaderboard]\<rparr>
          else
            (let listed = Print MsgFetching # evs @ Print (MsgFetched (length arena_models))
                            # rank_lines arena_models
             in case load_mapping (mapping_file w) of
                  Inl e \<Rightarrow> \<lparr>outcome = Uncaught e, yaml_after = yaml_file w, printed = listed\<rparr>
                | Inr mapping \<Rightarrow>
                    (case group_models mapping arena_models of
                       Inl e \<Rightarrow>
                         \<lparr>outcome = Uncaught e, yaml_after = yaml_file w, printed = listed\<rparr>
                     | Inr (provider_models, matched) \<Rightarrow>
                         (let grouped = listed @ Print (MsgMatched matched)
                                # map (\<lambda>(provider, models). Print (MsgProvider provider models))
                                    provider_models
                          in if matched = 0 then
                               \<lparr>outcome = SysExit 0, yaml_after = yaml_file w,
                                printed = grouped @ [Print WarnNoMatch]\<rparr>
                             else update_and_report lib provider_models (yaml_file w) grouped))))"

section \<open>Notions the properties are stated with\<close>

text \<open>
  A record of the API is a JSON object. \<open>field\<close> reads a key of an object and finds
  nothing elsewhere; \<open>path_get\<close> follows several keys.
\<close>

fun is_record :: "pyval \<Rightarrow> bool" where
  "is_record (PDict d) = True"
| "is_record x = False"

fun field :: "pyval \<Rightarrow> string \<Rightarrow> pyval option" where
  "field (PDict d) k = dict_get d (SStr k)"
| "field x k = None"


text \<open>
  The name the fetcher takes from a record: its \<^verbatim>\<open>model\<close> field when that is present and
  true as a condition, and otherwise its \<^verbatim>\<open>name\<close> field, or the empty string without one.
\<close>

definition name_of_record :: "pyval \<Rightarrow> pyval" where
  "name_of_record item =
     (let name = (case field item ''name'' of Some n \<Rightarrow> n | None \<Rightarrow> PS (SStr ''''))
      in case field item ''model'' of
           Some m \<Rightarrow> if truthy m then m else name
         | None \<Rightarrow> name)"

text \<open>
  The specification's wording of the same step: the name is read from the \<^verbatim>\<open>model\<close>
  field, falling back to the \<^verbatim>\<open>name\<close> field if absent, and the result is the first
  \<^verbatim>\<open>TOP_N\<close> non-empty names.
\<close>

definition spec_item_name :: "pyval \<Rightarrow> pyval" where
  "spec_item_name item =
     (case field item ''model'' of
        Some m \<Rightarrow> m
      | None \<Rightarrow> (case field item ''name'' of Some n \<Rightarrow> n | None \<Rightarrow> PS (SStr '''')))"

definition spec_primary_names :: "pyval list \<Rightarrow> pyval list" where
  "spec_primary_names data = take TOP_N (filter truthy (map spec_item_name data))"

text \<open>
  A YAML library in miniature, for concrete runs: a file is a document together with
  its layout (comments, quoting, flow or block style). The parser forgets the layout, the
  emitter always writes its own, and parsing what was emitted gives the document back.
\<close>

definition layout_yaml :: "(string \<times> pyval) yaml" where
  "layout_yaml = \<lparr>safe_load = (\<lambda>(layout, doc). Some doc), dump = (\<lambda>doc. (''emitted'', doc))\<rparr>"

text \<open>Concrete worlds: one that only answers requests, and a record with one field.\<close>

definition api_world :: "api_response \<Rightarrow> page_response \<Rightarrow> (string \<times> pyval) env" where
  "api_world a p =
     \<lparr>arena_api = a, leaderboard_page = p, mapping_file = FileMissing, yaml_file = None\<rparr>"

definition named :: "string \<Rightarrow> pyval" where
  "named s = PDict [(SStr ''model'', PS (SStr s))]"

section \<open>Notions the updater's properties are stated with\<close>

text \<open>
  The group matched for a built-in endpoint and for an entry of the \<^verbatim>\<open>custom\<close> list. A
  provider without a group and a provider with an empty group are treated alike by both
  loops, so the group is the empty list in either case. The name of a custom entry is
  \<^verbatim>\<open>endpoint.get("name", "")\<close>.
\<close>

definition builtin_group :: "(scalar \<times> pyval list) list \<Rightarrow> string \<Rightarrow> pyval list" where
  "builtin_group pm b = (case dict_get pm (SStr b) of Some ids \<Rightarrow> ids | None \<Rightarrow> [])"








text \<open>
  Reading a document: an entry by any key, the keys in order, the endpoints section as
  \<^verbatim>\<open>config.get("endpoints", {})\<close> gives it, the custom list, the \<^verbatim>\<open>models\<close> of an endpoint.
\<close>

fun entry :: "pyval \<Rightarrow> scalar \<Rightarrow> pyval option" where
  "entry (PDict d) k = dict_get d k"
| "entry x k = None"





text \<open>
  A mapping without some of its keys, the other entries in their order. Two endpoints
  that agree once \<^verbatim>\<open>models\<close> and \<^verbatim>\<open>titleModel\<close> are removed, and whose \<^verbatim>\<open>models\<close> agree
  once \<^verbatim>\<open>default\<close> is removed, differ in \<^verbatim>\<open>models.default\<close> and \<^verbatim>\<open>titleModel\<close> at most.
\<close>

definition listed :: "scalar list \<Rightarrow> scalar \<times> 'v \<Rightarrow> bool" where
  "listed ks kv = list_ex (py_eq (fst kv)) ks"



section \<open>The updater as a function of the document\<close>

text \<open>
  The document \<^verbatim>\<open>update_yaml\<close> serialises when it raises nothing, written without the
  exceptions: \<open>models_set\<close> is the two assignments on an endpoint \<open>d\<close> whose \<^verbatim>\<open>models\<close> is
  \<open>m\<close>; \<open>new_endpoint\<close> applies them when there is a group and the endpoint has a \<^verbatim>\<open>models\<close>
  mapping; \<open>new_builtin\<close> and \<open>new_customs\<close> are the two loops. The predicates \<open>ok_...\<close>
  say when the corresponding step of the script raises nothing. The theorem
  \<open>update_config_iff\<close> below ties both to \<open>update_config\<close>.
\<close>

definition models_set ::
  "(scalar \<times> pyval) list \<Rightarrow> (scalar \<times> pyval) list \<Rightarrow> pyval list \<Rightarrow> (scalar \<times> pyval) list" where
  "models_set d m ids =
     (let d1 = dict_set d (SStr ''models'') (PDict (dict_set m (SStr ''default'') (PList ids)))
      in if 1 < length ids then dict_set d1 (SStr ''titleModel'') (last ids) else d1)"

fun new_endpoint :: "pyval list \<Rightarrow> pyval \<Rightarrow> pyval" where
  "new_endpoint ids (PDict d) =
     (case dict_get d (SStr ''models'') of
        Some (PDict m) \<Rightarrow> if ids = [] then PDict d else PDict (models_set d m ids)
      | _ \<Rightarrow> PDict d)"
| "new_endpoint ids e = e"

definition new_builtin ::
  "(scalar \<times> pyval list) list \<Rightarrow> (scalar \<times> pyval) list \<Rightarrow> string \<Rightarrow> (scalar \<times> pyval) list" where
  "new_builtin pm E b =
     (case dict_get E (SStr b) of
        None \<Rightarrow> E
      | Some e \<Rightarrow> dict_set E (SStr b) (new_endpoint (builtin_group pm b) e))"









text \<open>A configuration and provider groups for concrete runs.\<close>

definition example_config :: pyval where
  "example_config =
     PDict [(SStr ''version'', PS (SStr ''1.2'')),
            (SStr ''endpoints'', PDict [
               (SStr ''openAI'', PDict [(SStr ''titleModel'', PS (SStr ''gpt-old'')),
                  (SStr ''models'', PDict [(SStr ''default'', PList [PS (SStr ''gpt-3'')])])]),
               (SStr ''anthropic'', PDict [
                  (SStr ''models'', PDict [(SStr ''default'', PList [PS (SStr ''claude-2'')])])]),
               (SStr ''custom'', PList [
                  PDict [(SStr ''name'', PS (SStr ''google'')),
                     (SStr ''models'', PDict [(SStr ''default'', PList [PS (SStr ''gemini-1'')])])],
                  PDict [(SStr ''name'', PS (SStr ''xai'')),
                     (SStr ''models'', PDict [(SStr ''default'', PList [PS (SStr ''grok-1'')])])]])])]"


definition example_world :: "(string \<times> pyval) env" where
  "example_world =
     \<lparr>arena_api = ApiJson (PList [named ''GPT-A'', named ''Gem-A'', named ''Unknown'', named ''Gem-B'']),
      leaderboard_page = PageRaises RequestException,
      mapping_file = FileJson (PDict [
        (SStr ''_comment'', PS (SStr ''names of the leaderboard'')),
        (SStr ''Gem-A'', PDict [(SStr ''provider'', PS (SStr ''google'')), (SStr ''model_id'', PS (SStr ''gem-a''))]),
        (SStr ''GPT-A'', PDict [(SStr ''provider'', PS (SStr ''openAI'')), (SStr ''model_id'', PS (SStr ''gpt-a''))]),
        (SStr ''Gem-B'', PDict [(SStr ''provider'', PS (SStr ''google'')), (SStr ''model_id'', PS (SStr ''gem-b''))])]),
      yaml_file = Some (''# with comments'', example_config)\<rparr>"





section \<open>Notions the resolver's properties are stated with\<close>

text \<open>
  What the grouping loop reads from the mapping for one name: the provider and the model
  id of its entry, when the entry is a mapping with both fields and a provider that can
  be a dictionary key. The ids a provider is owed by a sequence of names are those of the
  names mapped to it, in the order of the names. A name is resolvable when it is not a
  key of the mapping or its entry can be read. The group of a provider is the empty list
  when the provider has none.
\<close>

definition entry_of :: "(scalar \<times> pyval) list \<Rightarrow> scalar \<Rightarrow> (scalar \<times> pyval) option" where
  "entry_of mapping n =
     (case dict_get mapping n of
        None \<Rightarrow> None
      | Some info \<Rightarrow>
          (case (field info ''provider'', field info ''model_id'') of
             (Some (PS p), Some m) \<Rightarrow> Some (p, m)
           | _ \<Rightarrow> None))"

definition ids_of :: "(scalar \<times> pyval) list \<Rightarrow> scalar \<Rightarrow> scalar list \<Rightarrow> pyval list" where
  "ids_of mapping p names =
     map snd (filter (\<lambda>e. py_eq (fst e) p) (List.map_filter (entry_of mapping) names))"

definition in_mapping :: "(scalar \<times> pyval) list \<Rightarrow> scalar \<Rightarrow> bool" where
  "in_mapping mapping n = (dict_get mapping n \<noteq> None)"

definition resolvable :: "(scalar \<times> pyval) list \<Rightarrow> scalar \<Rightarrow> bool" where
  "resolvable mapping n = (dict_get mapping n = None \<or> entry_of mapping n \<noteq> None)"

definition group_of :: "(scalar \<times> pyval list) list \<Rightarrow> scalar \<Rightarrow> pyval list" where
  "group_of pm p = (case dict_get pm p of Some ids \<Rightarrow> ids | None \<Rightarrow> [])"

text \<open>The mapping and the names of the example run.\<close>

definition example_mapping :: "(scalar \<times> pyval) list" where
  "example_mapping =
     [(SStr ''Gem-A'', PDict [(SStr ''provider'', PS (SStr ''google'')), (SStr ''model_id'', PS (SStr ''gem-a''))]),
      (SStr ''GPT-A'', PDict [(SStr ''provider'', PS (SStr ''openAI'')), (SStr ''model_id'', PS (SStr ''gpt-a''))]),
      (SStr ''Gem-B'', PDict [(SStr ''provider'', PS (SStr ''google'')), (SStr ''model_id'', PS (SStr ''gem-b''))])]"

definition example_names :: "scalar list" where
  "example_names = [SStr ''GPT-A'', SStr ''Gem-A'', SStr ''Unknown'', SStr ''Gem-B'']"

section \<open>The fetcher\<close>

lemma item_name_record: "is_record item \<Longrightarrow> item_name item = Inr (name_of_record item)"
  by (cases item) (auto simp: item_name_def name_of_record_def split: option.splits)

lemma map_raise_total:
  "list_all (\<lambda>x. f x = Inr (g x)) xs \<Longrightarrow> map_raise f xs = Inr (map g xs)"
  by (induction xs) auto

lemma api_names_records:
  assumes "list_all is_record (take TOP_N data)"
  shows "api_names (PList data) = Inr (Some (filter truthy (map name_of_record (take TOP_N data))))"
proof -
  have "list_all (\<lambda>x. item_name x = Inr (name_of_record x)) (take TOP_N data)"
    using assms by (simp add: list_all_iff item_name_record)
  then show ?thesis by (simp add: map_raise_total)
qed

lemma fetch_primary_records:
  assumes "arena_api w = ApiJson (PList data)" and "list_all is_record (take TOP_N data)"
  shows "fetch_leaderboard w =
           (Inr (filter truthy (map name_of_record (take TOP_N data))), [HttpGet ARENA_API_URL])"
proof -
  have "primary_try (arena_api w) = Inr (Some (filter truthy (map name_of_record (take TOP_N data))))"
    using assms by (simp add: api_names_records del: api_names.simps)
  then show ?thesis by (simp add: fetch_leaderboard_def)
qed

text \<open>
  Claim C5, as amended. When the primary API answers with a JSON array whose first
  \<^verbatim>\<open>TOP_N\<close> elements are records, the fetcher returns, in order, the non-empty names of
  those first \<^verbatim>\<open>TOP_N\<close> records, where the name of a record is its \<^verbatim>\<open>model\<close> field, or its
  \<^verbatim>\<open>name\<close> field when \<^verbatim>\<open>model\<close> is absent or empty.
\<close>

theorem primary_api_names:
  assumes "arena_api w = ApiJson (PList data)" and "list_all is_record (take TOP_N data)"
  shows "fst (fetch_leaderboard w) = Inr (filter truthy (map name_of_record (take TOP_N data)))"
  using fetch_primary_records [OF assms] by simp

theorem primary_api_names_witness:
  "list_all is_record
     (take TOP_N [PDict [(SStr ''model'', PS (SStr '''')), (SStr ''name'', PS (SStr ''X''))], named ''Y''])
   \<and> fst (fetch_leaderboard (api_world
         (ApiJson (PList [PDict [(SStr ''model'', PS (SStr '''')), (SStr ''name'', PS (SStr ''X''))],
                          named ''Y'']))
         (PageRaises RequestException)))
       = Inr [PS (SStr ''X''), PS (SStr ''Y'')]"
  using primary_api_names [of "api_world
         (ApiJson (PList [PDict [(SStr ''model'', PS (SStr '''')), (SStr ''name'', PS (SStr ''X''))],
                          named ''Y'']))
         (PageRaises RequestException)"
      "[PDict [(SStr ''model'', PS (SStr '''')), (SStr ''name'', PS (SStr ''X''))], named ''Y'']"]
  by (simp add: api_world_def named_def TOP_N_def name_of_record_def py_eq_def)

text \<open>
  The claim as worded fails on two counts. A record whose \<^verbatim>\<open>model\<close> field is present but
  empty gets its \<^verbatim>\<open>name\<close> field. And the cut to \<^verbatim>\<open>TOP_N\<close> comes before the empty names
  are dropped: of 31 records, the first without a name, 29 names are returned and not 30.
\<close>

theorem primary_api_names_counterexample:
  "fst (fetch_leaderboard (api_world
          (ApiJson (PList [PDict [(SStr ''model'', PS (SStr '''')), (SStr ''name'', PS (SStr ''X''))]]))
          (PageRaises RequestException)))
     = Inr [PS (SStr ''X'')]
   \<and> spec_primary_names [PDict [(SStr ''model'', PS (SStr '''')), (SStr ''name'', PS (SStr ''X''))]] = []
   \<and> fst (fetch_leaderboard (api_world
          (ApiJson (PList (named '''' # replicate 30 (named ''m''))))
          (PageRaises RequestException)))
     = Inr (replicate 29 (PS (SStr ''m'')))
   \<and> spec_primary_names (named '''' # replicate 30 (named ''m'')) = replicate 30 (PS (SStr ''m''))"
  by code_simp

text \<open>
  Claim C6. The page holds a \<^verbatim>\<open>__NEXT_DATA__\<close> group that is not JSON, and one
  \<^verbatim>\<open>"model_name"\<close> entry. The claim has the second extraction run regardless and return
  that entry; the exception of \<^verbatim>\<open>json.loads\<close> ends the block before \<^verbatim>\<open>re.findall\<close>, and
  the fetcher returns nothing.
\<close>

theorem fallback_skipped_after_invalid_blob:
  "fetch_leaderboard (api_world (ApiRaises RequestException)
       (PageText \<lparr>next_data = BlobInvalid, model_names = [''GPT-5'']\<rparr>))
     = (Inr [], [HttpGet ARENA_API_URL, Print (WarnApiFailed RequestException),
                 HttpGet LEADERBOARD_PAGE_URL, Print (ErrFallbackFailed JSONDecodeError)])"
  by (simp add: fetch_leaderboard_def api_world_def)

text \<open>
  Claim C7. Whatever the two sources do, the fetcher returns a list: no exception of
  either attempt leaves it. When neither attempt yields a name (the first raises, falls
  through or returns no name; the second raises or finds none), the list is empty.
\<close>

theorem fetch_never_raises:
  "(\<exists>names. fst (fetch_leaderboard w) = Inr names)
   \<and> ((\<forall>names. primary_try (arena_api w) = Inr (Some names) \<longrightarrow> names = [])
        \<and> (\<forall>names. fst (fallback_try (leaderboard_page w)) = Inr (Some names) \<longrightarrow> names = [])
      \<longrightarrow> fst (fetch_leaderboard w) = Inr [])"
proof (cases "primary_try (arena_api w)")
  case (Inl e)
  then show ?thesis
    by (cases "fallback_try (leaderboard_page w)")
       (auto simp: fetch_leaderboard_def Let_def split: sum.splits option.splits)
next
  case (Inr r)
  show ?thesis
  proof (cases r)
    case None
    with Inr show ?thesis
      by (cases "fallback_try (leaderboard_page w)")
         (auto simp: fetch_leaderboard_def Let_def split: sum.splits option.splits)
  next
    case (Some names)
    with Inr show ?thesis by (simp add: fetch_leaderboard_def)
  qed
qed

theorem fetch_never_raises_witness:
  "fst (fetch_leaderboard (api_world (ApiJson (PList [PS (SStr ''GPT-5'')])) (PageRaises RequestException)))
     = Inr []"
  using fetch_never_raises [of "api_world (ApiJson (PList [PS (SStr ''GPT-5'')])) (PageRaises RequestException)"]
  by (simp add: api_world_def TOP_N_def item_name_def)

section \<open>The run\<close>

lemma HttpGet_main:
  "HttpGet u \<in> set (printed (main lib w)) \<longleftrightarrow> HttpGet u \<in> set (snd (fetch_leaderboard w))"
  by (cases "fetch_leaderboard w")
     (auto simp: main_def Let_def update_and_report_def rank_lines_def
           split: sum.splits option.splits prod.splits if_splits)

lemma update_and_report_no_exit:
  "outcome (update_and_report lib pm file before) \<noteq> SysExit n"
  by (auto simp: update_and_report_def split: option.splits sum.splits)

lemma update_and_report_status:
  "exit_status (outcome (update_and_report lib pm file before)) =
     (if \<exists>e. outcome (update_and_report lib pm file before) = Uncaught e then 1 else 0)"
  by (auto simp: update_and_report_def split: option.splits sum.splits)

text \<open>
  Claim C10, as amended. If the primary API answers with a JSON array whose first
  \<^verbatim>\<open>TOP_N\<close> elements are all records, the fetcher returns from the first block: the only
  request of the run is the one to the API, and the leaderboard page is never fetched.
  When those records yield no non-empty name, the fetcher returns the empty list and the
  run exits with status 1.
\<close>

theorem primary_array_no_fallback:
  assumes "arena_api w = ApiJson (PList data)" and "list_all is_record (take TOP_N data)"
  shows "snd (fetch_leaderboard w) = [HttpGet ARENA_API_URL]
         \<and> HttpGet LEADERBOARD_PAGE_URL \<notin> set (printed (main lib w))
         \<and> (filter truthy (map name_of_record (take TOP_N data)) = [] \<longrightarrow>
              fst (fetch_leaderboard w) = Inr []
              \<and> outcome (main lib w) = SysExit 1
              \<and> exit_status (outcome (main lib w)) = 1)"
proof -
  note f = fetch_primary_records [OF assms]
  have "HttpGet LEADERBOARD_PAGE_URL \<notin> set (printed (main lib w))"
    by (simp add: HttpGet_main f)
  moreover have "outcome (main lib w) = SysExit 1"
    if "filter truthy (map name_of_record (take TOP_N data)) = []"
    using that by (simp add: main_def f)
  ultimately show ?thesis by (simp add: f)
qed

theorem primary_array_no_fallback_witness:
  "snd (fetch_leaderboard (api_world (ApiJson (PList [named '''']))
          (PageText \<lparr>next_data = NoBlob, model_names = [''X'']\<rparr>)))
     = [HttpGet ARENA_API_URL]
   \<and> fst (fetch_leaderboard (api_world (ApiJson (PList [named '''']))
          (PageText \<lparr>next_data = NoBlob, model_names = [''X'']\<rparr>)))
     = Inr []
   \<and> exit_status (outcome (main layout_yaml (api_world (ApiJson (PList [named '''']))
          (PageText \<lparr>next_data = NoBlob, model_names = [''X'']\<rparr>)))) = 1"
  using primary_array_no_fallback [of "api_world (ApiJson (PList [named '''']))
          (PageText \<lparr>next_data = NoBlob, model_names = [''X'']\<rparr>)"
      "[named '''']" layout_yaml]
  by (simp add: api_world_def named_def TOP_N_def name_of_record_def py_eq_def)

text \<open>
  The claim as worded speaks of any JSON array. On an array of strings
  \<^verbatim>\<open>item.get\<close> raises, the exception is caught, and the page is fetched after all.
\<close>

theorem primary_array_no_fallback_counterexample:
  "fetch_leaderboard (api_world (ApiJson (PList [PS (SStr ''GPT-5'')]))
       (PageText \<lparr>next_data = NoBlob, model_names = [''X'']\<rparr>))
     = (Inr [PS (SStr ''X'')],
        [HttpGet ARENA_API_URL, Print (WarnApiFailed AttributeError), HttpGet LEADERBOARD_PAGE_URL])"
  by (simp add: fetch_leaderboard_def api_world_def TOP_N_def item_name_def)

text \<open>
  Claim C9, as amended. \<^verbatim>\<open>sys.exit(1)\<close> is reached exactly when the fetcher returns the
  empty list. The process ends with status 1 in that case and also when an exception
  leaves \<^verbatim>\<open>main\<close> (a mapping or configuration file that is missing or malformed); in every
  other case it ends with status 0. When names were fetched and none of them matches the
  mapping table, the run ends in \<^verbatim>\<open>sys.exit(0)\<close> and the configuration file is as it was.
\<close>

theorem exit_status_of_main:
  "(outcome (main lib w) = SysExit 1 \<longleftrightarrow> fst (fetch_leaderboard w) = Inr [])
   \<and> (exit_status (outcome (main lib w)) = 1 \<longleftrightarrow>
        fst (fetch_leaderboard w) = Inr [] \<or> (\<exists>e. outcome (main lib w) = Uncaught e))
   \<and> (exit_status (outcome (main lib w)) \<noteq> 1 \<longrightarrow> exit_status (outcome (main lib w)) = 0)
   \<and> (\<forall>names mapping provider_models.
         fst (fetch_leaderboard w) = Inr names \<and> names \<noteq> []
         \<and> load_mapping (mapping_file w) = Inr mapping
         \<and> group_models mapping names = Inr (provider_models, 0)
         \<longrightarrow> outcome (main lib w) = SysExit 0 \<and> yaml_after (main lib w) = yaml_file w)"
proof -
  obtain r evs where f: "fetch_leaderboard w = (r, evs)" by (cases "fetch_leaderboard w")
  show ?thesis
    by (auto simp: main_def f Let_def update_and_report_no_exit update_and_report_status
             split: sum.splits prod.splits)
qed

theorem exit_status_of_main_witness:
  "fst (fetch_leaderboard
      \<lparr>arena_api = ApiJson (PList [named ''GPT-5'']), leaderboard_page = PageRaises RequestException,
       mapping_file = FileJson (PDict [(SStr ''Claude'',
         PDict [(SStr ''provider'', PS (SStr ''anthropic'')), (SStr ''model_id'', PS (SStr ''claude-x''))])]),
       yaml_file = Some (''# c'', PDict [])\<rparr>) = Inr [PS (SStr ''GPT-5'')]
   \<and> outcome (main layout_yaml
      \<lparr>arena_api = ApiJson (PList [named ''GPT-5'']), leaderboard_page = PageRaises RequestException,
       mapping_file = FileJson (PDict [(SStr ''Claude'',
         PDict [(SStr ''provider'', PS (SStr ''anthropic'')), (SStr ''model_id'', PS (SStr ''claude-x''))])]),
       yaml_file = Some (''# c'', PDict [])\<rparr>) = SysExit 0
   \<and> yaml_after (main layout_yaml
      \<lparr>arena_api = ApiJson (PList [named ''GPT-5'']), leaderboard_page = PageRaises RequestException,
       mapping_file = FileJson (PDict [(SStr ''Claude'',
         PDict [(SStr ''provider'', PS (SStr ''anthropic'')), (SStr ''model_id'', PS (SStr ''claude-x''))])]),
       yaml_file = Some (''# c'', PDict [])\<rparr>) = Some (''# c'', PDict [])"
  using exit_status_of_main [of layout_yaml
      "\<lparr>arena_api = ApiJson (PList [named ''GPT-5'']), leaderboard_page = PageRaises RequestException,
       mapping_file = FileJson (PDict [(SStr ''Claude'',
         PDict [(SStr ''provider'', PS (SStr ''anthropic'')), (SStr ''model_id'', PS (SStr ''claude-x''))])]),
       yaml_file = Some (''# c'', PDict [])\<rparr>"]
  by (simp add: fetch_leaderboard_def named_def TOP_N_def item_name_def py_eq_def group_models_def)

text \<open>
  The claim as worded has status 1 exactly when the fetcher returns nothing. With a name
  fetched and the mapping file missing, \<^verbatim>\<open>load_mapping\<close> raises, nobody catches it, and
  the process ends with status 1 all the same.
\<close>

theorem exit_status_of_main_counterexample:
  "fst (fetch_leaderboard (api_world (ApiJson (PList [named ''GPT-5''])) (PageRaises RequestException)))
     = Inr [PS (SStr ''GPT-5'')]
   \<and> outcome (main layout_yaml (api_world (ApiJson (PList [named ''GPT-5''])) (PageRaises RequestException)))
     = Uncaught OSError
   \<and> exit_status (outcome (main layout_yaml (api_world (ApiJson (PList [named ''GPT-5''])) (PageRaises RequestException))))
     = 1"
  by (simp add: main_def fetch_leaderboard_def api_world_def named_def TOP_N_def item_name_def py_eq_def)

section \<open>The updater\<close>

lemma bind_eq_Inr: "bind m f = Inr y \<longleftrightarrow> (\<exists>x. m = Inr x \<and> f x = Inr y)"
  by (cases m) auto


lemma py_eq_refl [simp]: "py_eq k k"
  by (simp add: py_eq_def)

lemma py_eq_SStr [simp]: "py_eq (SStr s) k \<longleftrightarrow> k = SStr s" "py_eq k (SStr s) \<longleftrightarrow> k = SStr s"
  by (cases k; auto simp: py_eq_def)+

lemma py_eq_cong: "py_eq a b \<Longrightarrow> py_eq a c = py_eq b c"
  by (simp add: py_eq_def)

lemma dict_get_set: "dict_get (dict_set d k v) k' = (if py_eq k k' then Some v else dict_get d k')"
  by (induction d) (auto simp: py_eq_def)


lemma dict_set_same: "dict_get d k = Some v \<Longrightarrow> dict_set d k v = d"
  by (induction d) (auto split: if_splits)

lemma dict_set_twice: "dict_set (dict_set d k v) k v' = dict_set d k v'"
  by (induction d) auto






lemma new_endpoint_nil [simp]: "new_endpoint [] e = e"
  by (cases e) (auto split: option.splits pyval.splits)

















lemma dict_get_models_set:
  "dict_get (models_set d m ids) k =
     (if k = SStr ''titleModel'' \<and> 1 < length ids then Some (last ids)
      else if k = SStr ''models'' then Some (PDict (dict_set m (SStr ''default'') (PList ids)))
      else dict_get d k)"
  by (auto simp: models_set_def Let_def dict_get_set)

lemma models_set_twice:
  "models_set (models_set d m ids) (dict_set m (SStr ''default'') (PList ids)) ids = models_set d m ids"
proof -
  let ?m' = "dict_set m (SStr ''default'') (PList ids)"
  let ?d1 = "dict_set d (SStr ''models'') (PDict ?m')"
  have m: "dict_set ?m' (SStr ''default'') (PList ids) = ?m'" by (simp add: dict_set_twice)
  show ?thesis
  proof (cases "1 < length ids")
    case False
    then show ?thesis by (simp add: models_set_def Let_def m dict_set_twice)
  next
    case True
    let ?d2 = "dict_set ?d1 (SStr ''titleModel'') (last ids)"
    have "dict_set ?d2 (SStr ''models'') (PDict ?m') = ?d2"
      by (rule dict_set_same) (simp add: dict_get_set)
    moreover have "dict_set ?d2 (SStr ''titleModel'') (last ids) = ?d2"
      by (simp add: dict_set_twice)
    ultimately show ?thesis using True by (simp add: models_set_def Let_def m)
  qed
qed

lemma new_endpoint_twice: "new_endpoint ids (new_endpoint ids e) = new_endpoint ids e"
  by (cases e) (auto simp: dict_get_models_set models_set_twice split: option.splits pyval.splits)







lemma new_builtin_twice: "new_builtin pm (new_builtin pm E b) b = new_builtin pm E b"
  by (auto simp: new_builtin_def dict_get_set dict_set_twice new_endpoint_twice split: option.splits)


























lemma fetch_leaderboard_yaml_file [simp]:
  "fetch_leaderboard (w\<lparr>yaml_file := f\<rparr>) = fetch_leaderboard w"
  by (simp add: fetch_leaderboard_def cong: sum.case_cong option.case_cong)




lemma listed_here [simp]: "listed (k # ks) (k, v)"
  by (simp add: listed_def)

lemma listed_there: "listed ks (k, v) \<Longrightarrow> listed (k' # ks) (k, v)"
  by (simp add: listed_def)
































section \<open>The resolver\<close>

text \<open>
  The loop tests \<^verbatim>\<open>arena_name in mapping\<close> first, so a name that is not a key changes
  nothing; a list or a dictionary in the place of a name cannot be hashed and raises
  there.
\<close>

lemma group_step_unhashable:
  "group_step mapping s (PList xs) = Inl TypeError" "group_step mapping s (PDict d) = Inl TypeError"
  by (cases s; simp)+

lemma step_absent: "dict_get mapping n = None \<Longrightarrow> group_step mapping s (PS n) = Inr s"
  by (cases s) simp

lemma step_present:
  "entry_of mapping n = Some (p, m) \<Longrightarrow>
   group_step mapping (pm, k) (PS n) = Inr (setdefault_append pm p m, Suc k)"
  by (cases "dict_get mapping n"; cases "the (dict_get mapping n)")
     (auto simp: entry_of_def split: option.splits pyval.splits)

lemma step_Inr:
  "group_step mapping (pm, k) (PS n) = Inr s' \<Longrightarrow> dict_get mapping n \<noteq> None \<Longrightarrow>
   \<exists>p m. entry_of mapping n = Some (p, m)"
  by (cases "dict_get mapping n"; cases "the (dict_get mapping n)")
     (auto simp: entry_of_def bind_eq_Inr split: option.splits pyval.splits)

lemma dict_get_cong: "py_eq p q \<Longrightarrow> dict_get d p = dict_get d q"
  by (induction d) (auto simp: py_eq_def)

lemma dict_get_append:
  "dict_get (d @ [(k, v)]) q =
     (case dict_get d q of Some x \<Rightarrow> Some x | None \<Rightarrow> if py_eq k q then Some v else None)"
  by (induction d) auto

lemma group_of_setdefault:
  "group_of (setdefault_append pm p m) q = (if py_eq p q then group_of pm q @ [m] else group_of pm q)"
proof (cases "dict_get pm p")
  case None
  then show ?thesis
    using dict_get_cong [of p q pm]
    by (auto simp: group_of_def setdefault_append_def dict_get_append split: option.splits)
next
  case (Some ids)
  then show ?thesis
    using dict_get_cong [of p q pm]
    by (auto simp: group_of_def setdefault_append_def dict_get_set split: option.splits)
qed

lemma dict_get_setdefault_nonempty:
  "dict_get (setdefault_append pm p m) q = Some ids \<Longrightarrow>
   (\<And>ids. dict_get pm q = Some ids \<Longrightarrow> ids \<noteq> []) \<Longrightarrow> ids \<noteq> []"
  by (cases "dict_get pm p")
     (auto simp: setdefault_append_def dict_get_append dict_get_set split: option.splits if_splits)


lemma ids_of_Nil: "ids_of mapping p [] = []"
  by (simp add: ids_of_def map_filter_simps)

lemma ids_of_absent:
  "entry_of mapping n = None \<Longrightarrow> ids_of mapping p (n # names) = ids_of mapping p names"
  by (simp add: ids_of_def map_filter_simps)

lemma ids_of_present:
  "entry_of mapping n = Some (q, m) \<Longrightarrow>
   ids_of mapping p (n # names) = (if py_eq q p then m # ids_of mapping p names else ids_of mapping p names)"
  by (simp add: ids_of_def map_filter_simps)

lemma entry_of_absent: "dict_get mapping n = None \<Longrightarrow> entry_of mapping n = None"
  by (simp add: entry_of_def)

lemma fold_skip:
  "fold_raise (group_step mapping) (map PS names) s =
   fold_raise (group_step mapping) (map PS (filter (in_mapping mapping) names)) s"
proof (induction names arbitrary: s)
  case Nil
  show ?case by simp
next
  case (Cons n names)
  have rest: "fold_raise (group_step mapping) (map PS names) =
              fold_raise (group_step mapping) (map PS (filter (in_mapping mapping) names))"
    by (rule ext) (rule Cons.IH)
  show ?case
  proof (cases "in_mapping mapping n")
    case True
    with rest show ?thesis by (simp del: group_step.simps)
  next
    case False
    then have "group_step mapping s (PS n) = Inr s"
      by (simp add: in_mapping_def step_absent del: group_step.simps)
    with False rest show ?thesis by (simp del: group_step.simps)
  qed
qed

lemma fold_groups:
  "fold_raise (group_step mapping) (map PS names) (pm0, k0) = Inr (pm, k) \<Longrightarrow>
     k = k0 + length (filter (in_mapping mapping) names)
   \<and> (\<forall>p. group_of pm p = group_of pm0 p @ ids_of mapping p names)
   \<and> ((\<forall>p. dict_get pm0 p \<noteq> Some []) \<longrightarrow> (\<forall>p. dict_get pm p \<noteq> Some []))"
proof (induction names arbitrary: pm0 k0)
  case Nil
  then show ?case by (simp add: ids_of_Nil)
next
  case (Cons n names)
  show ?case
  proof (cases "dict_get mapping n")
    case None
    with Cons.prems have "fold_raise (group_step mapping) (map PS names) (pm0, k0) = Inr (pm, k)"
      by (simp add: step_absent del: group_step.simps)
    moreover from None have "\<not> in_mapping mapping n"
      by (simp add: in_mapping_def)
    ultimately show ?thesis
      using Cons.IH [of pm0 k0] None by (simp add: ids_of_absent entry_of_absent)
  next
    case (Some info)
    from Cons.prems obtain s' where s': "group_step mapping (pm0, k0) (PS n) = Inr s'"
      by (cases "group_step mapping (pm0, k0) (PS n)") simp_all
    with Some obtain q m where e: "entry_of mapping n = Some (q, m)"
      using step_Inr [of mapping pm0 k0 n s'] by auto
    with Cons.prems have
      "fold_raise (group_step mapping) (map PS names) (setdefault_append pm0 q m, Suc k0) = Inr (pm, k)"
      by (simp add: step_present del: group_step.simps)
    from Cons.IH [OF this] have
      k: "k = Suc k0 + length (filter (in_mapping mapping) names)" and
      g: "\<And>p. group_of pm p = group_of (setdefault_append pm0 q m) p @ ids_of mapping p names" and
      ne: "(\<forall>p. dict_get (setdefault_append pm0 q m) p \<noteq> Some []) \<Longrightarrow> (\<forall>p. dict_get pm p \<noteq> Some [])"
      by blast+
    have "\<forall>p. dict_get (setdefault_append pm0 q m) p \<noteq> Some []" if "\<forall>p. dict_get pm0 p \<noteq> Some []"
      using that dict_get_setdefault_nonempty [of pm0 q m _ "[]"] by blast
    moreover from Some have "in_mapping mapping n"
      by (simp add: in_mapping_def)
    ultimately show ?thesis
      using k g ne e by (simp add: ids_of_present group_of_setdefault)
  qed
qed

lemma fold_total:
  "list_all (resolvable mapping) names \<Longrightarrow>
   \<exists>pm k. fold_raise (group_step mapping) (map PS names) s = Inr (pm, k)"
proof (induction names arbitrary: s)
  case Nil
  then show ?case by (cases s) simp
next
  case (Cons n names)
  then show ?case
    by (cases s; cases "dict_get mapping n")
       (auto simp: resolvable_def step_absent step_present simp del: group_step.simps)
qed

lemma fold_Inr_resolvable:
  "fold_raise (group_step mapping) (map PS names) s = Inr r \<Longrightarrow> list_all (resolvable mapping) names"
proof (induction names arbitrary: s)
  case Nil
  then show ?case by simp
next
  case (Cons n names)
  then show ?case
    by (cases s; cases "group_step mapping s (PS n)")
       (auto simp: resolvable_def simp del: group_step.simps dest: step_Inr)
qed

lemma dict_get_group_of:
  "dict_get pm p \<noteq> Some [] \<Longrightarrow> dict_get pm p = (if group_of pm p = [] then None else Some (group_of pm p))"
  by (auto simp: group_of_def split: option.splits)


lemma dict_get_None_keys: "dict_get d k = None \<Longrightarrow> (k', v) \<in> set d \<Longrightarrow> hkey k' \<noteq> hkey k"
  by (induction d) (auto simp: py_eq_def split: if_splits)

lemma hkeys_dict_set_present:
  "dict_get d k = Some v0 \<Longrightarrow> map (hkey \<circ> fst) (dict_set d k v) = map (hkey \<circ> fst) d"
  by (induction d) (auto split: if_splits)

lemma distinct_setdefault:
  "distinct (map (hkey \<circ> fst) pm) \<Longrightarrow> distinct (map (hkey \<circ> fst) (setdefault_append pm p m))"
  by (cases "dict_get pm p")
     (auto simp: setdefault_append_def hkeys_dict_set_present dest: dict_get_None_keys)

lemma dict_get_member:
  "distinct (map (hkey \<circ> fst) d) \<Longrightarrow> (k, v) \<in> set d \<Longrightarrow> dict_get d k = Some v"
  by (induction d) (auto simp: py_eq_def rev_image_eqI)

lemma fold_distinct:
  "fold_raise (group_step mapping) (map PS names) (pm0, k0) = Inr (pm, k) \<Longrightarrow>
   distinct (map (hkey \<circ> fst) pm0) \<Longrightarrow> distinct (map (hkey \<circ> fst) pm)"
proof (induction names arbitrary: pm0 k0)
  case Nil
  then show ?case by simp
next
  case (Cons n names)
  show ?case
  proof (cases "dict_get mapping n")
    case None
    with Cons.prems have "fold_raise (group_step mapping) (map PS names) (pm0, k0) = Inr (pm, k)"
      by (simp add: step_absent del: group_step.simps)
    then show ?thesis using Cons.prems(2) by (rule Cons.IH)
  next
    case (Some info)
    from Cons.prems obtain s' where s': "group_step mapping (pm0, k0) (PS n) = Inr s'"
      by (cases "group_step mapping (pm0, k0) (PS n)") simp_all
    with Some obtain q m where e: "entry_of mapping n = Some (q, m)"
      using step_Inr [of mapping pm0 k0 n s'] by auto
    with Cons.prems have
      "fold_raise (group_step mapping) (map PS names) (setdefault_append pm0 q m, Suc k0) = Inr (pm, k)"
      by (simp add: step_present del: group_step.simps)
    then show ?thesis using distinct_setdefault [OF Cons.prems(2)] by (rule Cons.IH)
  qed
qed

text \<open>
  Claim C2. Names that are not keys of the mapping are skipped and raise nothing: the
  loop gives the same result, groups, count or exception, as on the sequence without
  them. When the entry of every name that is a key can be read, the loop succeeds, the
  count is the number of names that are keys, and the group of each provider is the list
  of the model ids of the names mapped to it, in the rank order of those names; a
  provider to which no name is mapped has no group.
\<close>

theorem groups_in_rank_order:
  "group_models mapping (map PS names)
     = group_models mapping (map PS (filter (in_mapping mapping) names))
   \<and> (list_all (resolvable mapping) names \<longrightarrow>
        (\<exists>pm. group_models mapping (map PS names)
                 = Inr (pm, length (filter (in_mapping mapping) names))
            \<and> list_all (\<lambda>(p, ids). ids = ids_of mapping p names) pm
            \<and> (\<forall>p. dict_get pm p
                     = (if ids_of mapping p names = [] then None
                        else Some (ids_of mapping p names)))))"
proof (intro conjI impI)
  show "group_models mapping (map PS names)
     = group_models mapping (map PS (filter (in_mapping mapping) names))"
    unfolding group_models_def by (rule fold_skip)
next
  assume "list_all (resolvable mapping) names"
  then obtain pm k where r: "fold_raise (group_step mapping) (map PS names) ([], 0) = Inr (pm, k)"
    using fold_total [of mapping names "([], 0)"] by blast
  from fold_groups [OF r] have k: "k = length (filter (in_mapping mapping) names)"
    and g: "\<And>p. group_of pm p = ids_of mapping p names"
    and ne: "\<And>p. dict_get pm p \<noteq> Some []"
    by (simp_all add: group_of_def)
  have d: "distinct (map (hkey \<circ> fst) pm)"
    using fold_distinct [OF r] by simp
  have get: "dict_get pm p = (if ids_of mapping p names = [] then None
                        else Some (ids_of mapping p names))" for p
    using dict_get_group_of [OF ne, of p] by (simp add: g)
  have "ids = ids_of mapping p names" if "(p, ids) \<in> set pm" for p ids
    using dict_get_member [OF d that] get [of p] by (simp split: if_splits)
  then have "list_all (\<lambda>(p, ids). ids = ids_of mapping p names) pm"
    by (auto simp: list_all_iff)
  with r k get show "\<exists>pm. group_models mapping (map PS names)
                 = Inr (pm, length (filter (in_mapping mapping) names))
            \<and> list_all (\<lambda>(p, ids). ids = ids_of mapping p names) pm
            \<and> (\<forall>p. dict_get pm p
                     = (if ids_of mapping p names = [] then None
                        else Some (ids_of mapping p names)))"
    unfolding group_models_def by blast
qed

lemma example_resolution:
  "fst (fetch_leaderboard example_world) = Inr (map PS example_names)
   \<and> load_mapping (mapping_file example_world) = Inr example_mapping
   \<and> list_all (resolvable example_mapping) example_names
   \<and> filter (in_mapping example_mapping) example_names
       = [SStr ''GPT-A'', SStr ''Gem-A'', SStr ''Gem-B'']
   \<and> ids_of example_mapping (SStr ''openAI'') example_names = [PS (SStr ''gpt-a'')]
   \<and> ids_of example_mapping (SStr ''google'') example_names
       = [PS (SStr ''gem-a''), PS (SStr ''gem-b'')]
   \<and> group_models example_mapping (map PS example_names)
       = Inr ([(SStr ''openAI'', [PS (SStr ''gpt-a'')]),
               (SStr ''google'', [PS (SStr ''gem-a''), PS (SStr ''gem-b'')])], 3)"
  by code_simp

theorem groups_in_rank_order_witness:
  "list_all (resolvable example_mapping) example_names
   \<and> group_models example_mapping (map PS example_names)
       = group_models example_mapping (map PS [SStr ''GPT-A'', SStr ''Gem-A'', SStr ''Gem-B''])
   \<and> (\<exists>pm. group_models example_mapping (map PS example_names) = Inr (pm, 3)
         \<and> dict_get pm (SStr ''openAI'') = Some [PS (SStr ''gpt-a'')]
         \<and> dict_get pm (SStr ''google'') = Some [PS (SStr ''gem-a''), PS (SStr ''gem-b'')]
         \<and> dict_get pm (SStr ''mistral'') = None)"
proof -
  have facts: "list_all (resolvable example_mapping) example_names
   \<and> filter (in_mapping example_mapping) example_names
       = [SStr ''GPT-A'', SStr ''Gem-A'', SStr ''Gem-B'']
   \<and> ids_of example_mapping (SStr ''openAI'') example_names = [PS (SStr ''gpt-a'')]
   \<and> ids_of example_mapping (SStr ''google'') example_names
       = [PS (SStr ''gem-a''), PS (SStr ''gem-b'')]
   \<and> ids_of example_mapping (SStr ''mistral'') example_names = []"
    by code_simp
  with groups_in_rank_order [of example_mapping example_names]
  obtain pm where
    r: "group_models example_mapping (map PS example_names)
          = Inr (pm, length (filter (in_mapping example_mapping) example_names))"
    and get: "\<And>p. dict_get pm p
                = (if ids_of example_mapping p example_names = [] then None
                   else Some (ids_of example_mapping p example_names))"
    and skip: "group_models example_mapping (map PS example_names)
          = group_models example_mapping
              (map PS (filter (in_mapping example_mapping) example_names))"
    by blast
  from r facts have "group_models example_mapping (map PS example_names) = Inr (pm, 3)"
    by simp
  moreover from get [of "SStr ''openAI''"] facts
  have "dict_get pm (SStr ''openAI'') = Some [PS (SStr ''gpt-a'')]"
    by simp
  moreover from get [of "SStr ''google''"] facts
  have "dict_get pm (SStr ''google'') = Some [PS (SStr ''gem-a''), PS (SStr ''gem-b'')]"
    by simp
  moreover from get [of "SStr ''mistral''"] facts
  have "dict_get pm (SStr ''mistral'') = None"
    by simp
  moreover from skip facts
  have "group_models example_mapping (map PS example_names)
       = group_models example_mapping (map PS [SStr ''GPT-A'', SStr ''Gem-A'', SStr ''Gem-B''])"
    by simp
  ultimately show ?thesis using facts by blast
qed

end
